theory Spec2Isabelle
  imports Complex_Main "HOL-Library.Sublist"
begin

section \<open>JavaScript values\<close>

text \<open>
  The server actions of \<^verbatim>\<open>src/app/lib/actions.ts\<close> receive browser form data, coerce
  and validate it with the zod schema \<^verbatim>\<open>FormSchema\<close>, and bind JavaScript values into
  SQL statements. The model keeps the values as JavaScript has them.

  Strings are lists of 8-bit code units (every literal of the source is ASCII).
  A JavaScript Number is an IEEE 754 binary64 value: a finite one is represented by the
  rational it denotes, and every arithmetic result is rounded to the nearest binary64
  value, ties to even (\<open>round_binary64\<close>). The sign of zero is not represented: the
  only comparison of the source, \<^verbatim>\<open>.gt(0)\<close>, treats both zeros alike.
\<close>

datatype jsnum = NaN | PosInf | NegInf | Fin rat

datatype js_value =
    Undefined
  | Null
  | Str string
  | Num jsnum
  | FileObj   \<comment> \<open>a \<^verbatim>\<open>File\<close> entry of a form: an object\<close>

subsection \<open>Rounding to binary64\<close>

definition pow2 :: "int \<Rightarrow> rat" where
  "pow2 k = (if 0 \<le> k then 2 ^ nat k else 1 / 2 ^ nat (- k))"

function bit_length :: "int \<Rightarrow> int" where
  "bit_length n = (if n \<le> 0 then 0 else 1 + bit_length (n div 2))"
  by pat_completeness auto
termination
  by (relation "measure nat") auto

declare bit_length.simps [simp del]

text \<open>The exponent \<open>e\<close> with \<open>2 ^ e \<le> a < 2 ^ (e + 1)\<close>, for a positive rational.\<close>

definition floor_log2 :: "rat \<Rightarrow> int" where
  "floor_log2 a =
     (let (p, q) = quotient_of a;
          k = bit_length p - bit_length q
      in if pow2 k \<le> a then k else k - 1)"

definition round_half_even :: "rat \<Rightarrow> int" where
  "round_half_even x =
     (let f = \<lfloor>x\<rfloor>; d = x - of_int f
      in if d < 1 / 2 then f
         else if 1 / 2 < d then f + 1
         else if even f then f else f + 1)"

text \<open>
  Round-to-nearest, ties-to-even, to a 53-bit significand, exponents from -1022 (below
  that the spacing stays \<open>2 ^ -1074\<close>: subnormal numbers); a result of magnitude
  \<open>2 ^ 1024\<close> or more overflows to an infinity.
\<close>

definition round_binary64 :: "rat \<Rightarrow> jsnum" where
  "round_binary64 q =
     (if q = 0 then Fin 0
      else let a = \<bar>q\<bar>;
               e = max (floor_log2 a) (- 1022);
               ulp = pow2 (e - 52);
               r = of_int (round_half_even (a / ulp)) * ulp
           in if pow2 1024 \<le> r then (if 0 < q then PosInf else NegInf)
              else Fin (if 0 < q then r else - r))"

text \<open>The \<^verbatim>\<open>*\<close> operator on Numbers (Number::multiply).\<close>

fun js_multiply :: "jsnum \<Rightarrow> jsnum \<Rightarrow> jsnum" where
  "js_multiply NaN _ = NaN"
| "js_multiply _ NaN = NaN"
| "js_multiply (Fin a) (Fin b) = round_binary64 (a * b)"
| "js_multiply (Fin a) PosInf = (if a = 0 then NaN else if 0 < a then PosInf else NegInf)"
| "js_multiply (Fin a) NegInf = (if a = 0 then NaN else if 0 < a then NegInf else PosInf)"
| "js_multiply PosInf (Fin b) = (if b = 0 then NaN else if 0 < b then PosInf else NegInf)"
| "js_multiply NegInf (Fin b) = (if b = 0 then NaN else if 0 < b then NegInf else PosInf)"
| "js_multiply PosInf PosInf = PosInf"
| "js_multiply PosInf NegInf = NegInf"
| "js_multiply NegInf PosInf = NegInf"
| "js_multiply NegInf NegInf = PosInf"

text \<open>The relation \<^verbatim>\<open>x <= y\<close> on Numbers: false as soon as one side is NaN.\<close>

fun js_le :: "jsnum \<Rightarrow> jsnum \<Rightarrow> bool" where
  "js_le NaN _ = False"
| "js_le _ NaN = False"
| "js_le NegInf _ = True"
| "js_le _ PosInf = True"
| "js_le PosInf _ = False"
| "js_le _ NegInf = False"
| "js_le (Fin a) (Fin b) = (a \<le> b)"

subsection \<open>Number(string): StringToNumber\<close>

text \<open>
  \<^verbatim>\<open>z.coerce.number()\<close> applies \<^verbatim>\<open>Number(input)\<close>. On a string this is
  the StringToNumber operation of ECMAScript: surrounding white space is dropped; the empty
  string is 0; a decimal literal (optional sign, digits, optional fraction, optional
  exponent), \<^verbatim>\<open>Infinity\<close>, or an unsigned hexadecimal, octal or binary integer literal
  is its value rounded to binary64; anything else is NaN.
\<close>

definition StrWhiteSpaceChar :: "char \<Rightarrow> bool" where
  "StrWhiteSpaceChar c \<longleftrightarrow>
     c \<in> set [CHR 0x09, CHR 0x0A, CHR 0x0B, CHR 0x0C, CHR 0x0D, CHR 0x20, CHR 0xA0]"

definition trim :: "string \<Rightarrow> string" where
  "trim s = rev (dropWhile StrWhiteSpaceChar (rev (dropWhile StrWhiteSpaceChar s)))"

definition digit_value :: "char \<Rightarrow> int option" where
  "digit_value c =
     map_of (zip ''0123456789abcdef'' [0, 1, 2, 3, 4, 5, 6, 7, 8, 9, 10, 11, 12, 13, 14, 15]
             @ zip ''ABCDEF'' [10, 11, 12, 13, 14, 15]) c"

definition is_digit :: "int \<Rightarrow> char \<Rightarrow> bool" where
  "is_digit base c = (case digit_value c of None \<Rightarrow> False | Some d \<Rightarrow> d < base)"

text \<open>The mathematical value of a sequence of digits of the given base.\<close>

definition digits_MV :: "int \<Rightarrow> string \<Rightarrow> int" where
  "digits_MV base ds =
     foldl (\<lambda>acc c. acc * base + (case digit_value c of None \<Rightarrow> 0 | Some d \<Rightarrow> d)) 0 ds"

definition pow10 :: "int \<Rightarrow> rat" where
  "pow10 k = (if 0 \<le> k then 10 ^ nat k else 1 / 10 ^ nat (- k))"

text \<open>ExponentPart, optional: \<^verbatim>\<open>e\<close> or \<^verbatim>\<open>E\<close>, an optional sign, one digit or more.\<close>

definition ExponentPart :: "string \<Rightarrow> int option" where
  "ExponentPart s =
     (case s of
        [] \<Rightarrow> Some 0
      | c # u \<Rightarrow>
          if c = CHR ''e'' \<or> c = CHR ''E'' then
            (let (sign, ds) =
                   (case u of
                      [] \<Rightarrow> (1, [])
                    | d # v \<Rightarrow>
                        if d = CHR ''+'' then (1, v)
                        else if d = CHR ''-'' then (- 1, v)
                        else (1, u))
             in if ds \<noteq> [] \<and> list_all (is_digit 10) ds
                then Some (sign * digits_MV 10 ds) else None)
          else None)"

text \<open>StrUnsignedDecimalLiteral; \<open>None\<close> when the text is not one.\<close>

definition StrUnsignedDecimalLiteral :: "string \<Rightarrow> jsnum option" where
  "StrUnsignedDecimalLiteral t =
     (if t = ''Infinity'' then Some PosInf
      else
        let ip = takeWhile (is_digit 10) t;
            r1 = dropWhile (is_digit 10) t;
            (fp, r2) =
              (case r1 of
                 [] \<Rightarrow> ([], r1)
               | c # u \<Rightarrow>
                   if c = CHR ''.''
                   then (takeWhile (is_digit 10) u, dropWhile (is_digit 10) u)
                   else ([], r1))
        in if ip = [] \<and> fp = [] then None
           else (case ExponentPart r2 of
                   None \<Rightarrow> None
                 | Some ex \<Rightarrow>
                     Some (round_binary64
                            (of_int (digits_MV 10 (ip @ fp)) * pow10 (ex - int (length fp))))))"

text \<open>NonDecimalIntegerLiteral: \<^verbatim>\<open>0x\<close>, \<^verbatim>\<open>0o\<close>, \<^verbatim>\<open>0b\<close> (either case), digits.\<close>

definition NonDecimalIntegerLiteral :: "string \<Rightarrow> jsnum option" where
  "NonDecimalIntegerLiteral t =
     (case t of
        z # x # ds \<Rightarrow>
          (let base =
                 (if z \<noteq> CHR ''0'' then 0
                  else if x = CHR ''x'' \<or> x = CHR ''X'' then 16
                  else if x = CHR ''o'' \<or> x = CHR ''O'' then 8
                  else if x = CHR ''b'' \<or> x = CHR ''B'' then 2
                  else 0)
           in if base \<noteq> 0 \<and> ds \<noteq> [] \<and> list_all (is_digit base) ds
              then Some (round_binary64 (of_int (digits_MV base ds))) else None)
      | _ \<Rightarrow> None)"

fun js_negate :: "jsnum \<Rightarrow> jsnum" where
  "js_negate NaN = NaN"
| "js_negate PosInf = NegInf"
| "js_negate NegInf = PosInf"
| "js_negate (Fin a) = Fin (- a)"

definition StringToNumber :: "string \<Rightarrow> jsnum" where
  "StringToNumber str =
     (let t = trim str
      in if t = [] then Fin 0
         else (case NonDecimalIntegerLiteral t of
                 Some n \<Rightarrow> n
               | None \<Rightarrow>
                   (let parsed =
                          (if hd t = CHR ''+'' then StrUnsignedDecimalLiteral (tl t)
                           else if hd t = CHR ''-''
                             then map_option js_negate (StrUnsignedDecimalLiteral (tl t))
                           else StrUnsignedDecimalLiteral t)
                    in case parsed of None \<Rightarrow> NaN | Some n \<Rightarrow> n)))"

text \<open>
  ToNumber on the values a form can hold: \<^verbatim>\<open>Number(null)\<close> is 0,
  \<^verbatim>\<open>Number(undefined)\<close> is NaN, and a \<^verbatim>\<open>File\<close> object converts through
  its string \<^verbatim>\<open>[object File]\<close>, which is not numeric.
\<close>

fun ToNumber :: "js_value \<Rightarrow> jsnum" where
  "ToNumber Undefined = NaN"
| "ToNumber Null = Fin 0"
| "ToNumber (Str s) = StringToNumber s"
| "ToNumber (Num n) = n"
| "ToNumber FileObj = StringToNumber ''[object File]''"

definition js_times :: "js_value \<Rightarrow> js_value \<Rightarrow> js_value" where
  "js_times a b = Num (js_multiply (ToNumber a) (ToNumber b))"

section \<open>The zod schema of \<^verbatim>\<open>actions.ts\<close>\<close>

text \<open>
  The validation library zod is not part of the repository. Its behaviour on the three
  kinds of schema that \<^verbatim>\<open>FormSchema\<close> uses is modelled here as zod 3 documents and
  implements it: \<^verbatim>\<open>z.string\<close> and \<^verbatim>\<open>z.enum\<close> with an optional
  \<^verbatim>\<open>invalid_type_error\<close>, \<^verbatim>\<open>z.coerce.number\<close> with its minimum checks,
  \<^verbatim>\<open>z.object\<close> with \<^verbatim>\<open>omit\<close>, \<^verbatim>\<open>safeParse\<close> and
  \<^verbatim>\<open>error.flatten().fieldErrors\<close>.
\<close>

datatype ZodIssueCode = invalid_type | invalid_enum_value | too_small

record ZodIssue =
  issue_code :: ZodIssueCode
  issue_path :: "string list"
  issue_message :: string

datatype ZodNumberCheck =
  Min jsnum bool string   \<comment> \<open>kind \<^verbatim>\<open>min\<close>: value, inclusive, message\<close>

datatype ZodType =
    ZodString "string option"                 \<comment> \<open>\<^verbatim>\<open>invalid_type_error\<close>\<close>
  | ZodNumber bool "ZodNumberCheck list"      \<comment> \<open>\<^verbatim>\<open>coerce\<close>, checks\<close>
  | ZodEnum "string list" "string option"     \<comment> \<open>values, \<^verbatim>\<open>invalid_type_error\<close>\<close>

text \<open>\<^verbatim>\<open>.gt(value, {message})\<close> adds an exclusive minimum.\<close>

fun gt :: "ZodType \<Rightarrow> jsnum \<Rightarrow> string \<Rightarrow> ZodType" where
  "gt (ZodNumber coerce checks) v m = ZodNumber coerce (checks @ [Min v False m])"
| "gt t v m = t"

fun getParsedType :: "js_value \<Rightarrow> string" where
  "getParsedType Undefined = ''undefined''"
| "getParsedType Null = ''null''"
| "getParsedType (Str s) = ''string''"
| "getParsedType (Num n) = (if n = NaN then ''nan'' else ''number'')"
| "getParsedType FileObj = ''object''"

text \<open>The default error map, for the issues that can arise here.\<close>

definition invalid_type_message :: "string \<Rightarrow> string \<Rightarrow> string" where
  "invalid_type_message expected received =
     (if received = ''undefined'' then ''Required''
      else ''Expected '' @ expected @ '', received '' @ received)"

definition joinValues :: "string list \<Rightarrow> string" where
  "joinValues vs =
     (case map (\<lambda>v. [CHR 0x27] @ v @ [CHR 0x27]) vs of
        [] \<Rightarrow> []
      | q # qs \<Rightarrow> foldl (\<lambda>acc x. acc @ '' | '' @ x) q qs)"

definition invalid_enum_value_message :: "string list \<Rightarrow> string \<Rightarrow> string" where
  "invalid_enum_value_message options received =
     ''Invalid enum value. Expected '' @ joinValues options
       @ '', received '' @ [CHR 0x27] @ received @ [CHR 0x27]"

text \<open>
  The error map that a schema built with only \<^verbatim>\<open>invalid_type_error\<close> carries: the
  friendly message replaces the default one for an \<^verbatim>\<open>invalid_type\<close> issue on a
  value that is not \<^verbatim>\<open>undefined\<close>, and for nothing else.
\<close>

definition customMap :: "string option \<Rightarrow> ZodIssueCode \<Rightarrow> js_value \<Rightarrow> string \<Rightarrow> string" where
  "customMap invalid_type_error c data defaultError =
     (if c = invalid_enum_value then defaultError
      else if data = Undefined then defaultError
      else if c \<noteq> invalid_type then defaultError
      else (case invalid_type_error of None \<Rightarrow> defaultError | Some m \<Rightarrow> m))"

fun js_lt :: "jsnum \<Rightarrow> jsnum \<Rightarrow> bool" where
  "js_lt NaN _ = False"
| "js_lt _ NaN = False"
| "js_lt PosInf _ = False"
| "js_lt _ NegInf = False"
| "js_lt NegInf _ = True"
| "js_lt _ PosInf = True"
| "js_lt (Fin a) (Fin b) = (a < b)"

fun run_check :: "string list \<Rightarrow> jsnum \<Rightarrow> ZodNumberCheck \<Rightarrow> ZodIssue list" where
  "run_check p n (Min v inclusive m) =
     (let tooSmall = (if inclusive then js_lt n v else js_le n v)
      in if tooSmall then [\<lparr>issue_code = too_small, issue_path = p, issue_message = m\<rparr>]
         else [])"

text \<open>
  \<^verbatim>\<open>_parse\<close> of a schema on a value at a path: the issues raised and the parsed
  value. The parse succeeded when there is no issue.
\<close>

fun ZodType_parse :: "ZodType \<Rightarrow> string list \<Rightarrow> js_value \<Rightarrow> ZodIssue list \<times> js_value" where
  "ZodType_parse (ZodString invalid_type_error) p input =
     (if getParsedType input \<noteq> ''string''
      then ([\<lparr>issue_code = invalid_type, issue_path = p,
              issue_message = customMap invalid_type_error invalid_type input
                (invalid_type_message ''string'' (getParsedType input))\<rparr>], input)
      else ([], input))"
| "ZodType_parse (ZodNumber coerce checks) p input =
     (let data = (if coerce then Num (ToNumber input) else input)
      in if getParsedType data \<noteq> ''number''
         then ([\<lparr>issue_code = invalid_type, issue_path = p,
                 issue_message = invalid_type_message ''number'' (getParsedType data)\<rparr>], data)
         else (concat (map (run_check p (ToNumber data)) checks), data))"
| "ZodType_parse (ZodEnum values invalid_type_error) p input =
     (case input of
        Str s \<Rightarrow>
          if s \<in> set values then ([], input)
          else ([\<lparr>issue_code = invalid_enum_value, issue_path = p,
                  issue_message = customMap invalid_type_error invalid_enum_value input
                    (invalid_enum_value_message values s)\<rparr>], input)
      | _ \<Rightarrow>
          ([\<lparr>issue_code = invalid_type, issue_path = p,
             issue_message = customMap invalid_type_error invalid_type input
               (invalid_type_message (joinValues values) (getParsedType input))\<rparr>], input))"

subsection \<open>Objects\<close>

type_synonym js_object = "(string \<times> js_value) list"
type_synonym ZodObject = "(string \<times> ZodType) list"

text \<open>Reading a property: \<^verbatim>\<open>undefined\<close> when the object has no such key.\<close>

definition js_get :: "js_object \<Rightarrow> string \<Rightarrow> js_value" where
  "js_get obj k = (case map_of obj k of None \<Rightarrow> Undefined | Some v \<Rightarrow> v)"

definition omit :: "ZodObject \<Rightarrow> string list \<Rightarrow> ZodObject" where
  "omit shape ks = filter (\<lambda>(k, t). k \<notin> set ks) shape"

datatype SafeParseReturn = ParseSuccess js_object | ParseError "ZodIssue list"

text \<open>
  Every key of the shape is parsed, in order, on the property of that name (unknown
  keys of the input are stripped); the issues of all keys are collected.
\<close>

definition safeParse :: "ZodObject \<Rightarrow> js_object \<Rightarrow> SafeParseReturn" where
  "safeParse shape obj =
     (let results = map (\<lambda>(k, t). (k, ZodType_parse t [k] (js_get obj k))) shape;
          issues = concat (map (\<lambda>(k, r). fst r) results)
      in if issues = [] then ParseSuccess (map (\<lambda>(k, r). (k, snd r)) results)
         else ParseError issues)"

text \<open>\<^verbatim>\<open>error.flatten().fieldErrors\<close>: the messages grouped by the first path element.\<close>

fun push_message :: "(string \<times> string list) list \<Rightarrow> string \<Rightarrow> string \<Rightarrow> (string \<times> string list) list" where
  "push_message [] k m = [(k, [m])]"
| "push_message ((k', ms) # rest) k m =
     (if k' = k then (k', ms @ [m]) # rest else (k', ms) # push_message rest k m)"

definition fieldErrors :: "ZodIssue list \<Rightarrow> (string \<times> string list) list" where
  "fieldErrors issues =
     foldl (\<lambda>acc i. case issue_path i of [] \<Rightarrow> acc | k # _ \<Rightarrow> push_message acc k (issue_message i))
       [] issues"

subsection \<open>\<^verbatim>\<open>FormSchema\<close>, \<^verbatim>\<open>CreateInvoice\<close>, \<^verbatim>\<open>UpdateInvoice\<close>\<close>

definition FormSchema :: ZodObject where
  "FormSchema =
     [(''id'', ZodString None),
      (''customerId'', ZodString (Some ''Please select a customer.'')),
      (''amount'', gt (ZodNumber True []) (Fin 0) ''Please enter an amount greater than $0.''),
      (''status'', ZodEnum [''pending'', ''paid''] (Some ''Please select an invoice status.'')),
      (''date'', ZodString None)]"

definition CreateInvoice :: ZodObject where
  "CreateInvoice = omit FormSchema [''id'', ''date'']"

definition UpdateInvoice :: ZodObject where
  "UpdateInvoice = omit FormSchema [''id'', ''date'']"

section \<open>The environment of the server actions\<close>

text \<open>
  An action runs against the storage, the cache, the clock and the identity provider.
  These are external; the state below holds what the actions can observe and change:
  the rows of the \<^verbatim>\<open>invoices\<close> table, the statements submitted to the storage, the
  paths passed to \<^verbatim>\<open>revalidatePath\<close>, the current time, and two oracles: which
  statements the storage rejects (and with which error), and how the identity provider
  answers a sign-in.
\<close>

datatype js_error =
    Error string           \<comment> \<open>\<^verbatim>\<open>new Error(message)\<close>\<close>
  | AuthError string       \<comment> \<open>an \<^verbatim>\<open>AuthError\<close> with its \<^verbatim>\<open>type\<close>\<close>
  | NEXT_REDIRECT string   \<comment> \<open>what \<^verbatim>\<open>redirect(path)\<close> throws\<close>

datatype 'a outcome = Return 'a | Throw js_error

record invoice =
  invoice_id :: string
  customer_id :: js_value
  amount :: js_value
  status :: js_value
  date :: js_value

datatype sql_statement =
    INSERT_INTO_invoices js_value js_value js_value js_value
      \<comment> \<open>\<^verbatim>\<open>(customer_id, amount, status, date) VALUES (...)\<close>\<close>
  | UPDATE_invoices js_value js_value js_value string
      \<comment> \<open>\<^verbatim>\<open>SET customer_id, amount, status WHERE id\<close>\<close>
  | DELETE_FROM_invoices string
      \<comment> \<open>\<^verbatim>\<open>WHERE id\<close>\<close>

record Date =
  year :: int
  month :: nat      \<comment> \<open>1 to 12\<close>
  day :: nat        \<comment> \<open>1 to 31\<close>
  hours :: nat
  minutes :: nat
  seconds :: nat
  milliseconds :: nat

text \<open>A form: named entries in order, each a string or a file.\<close>

datatype FormDataEntryValue = Text string | File

type_synonym FormData = "(string \<times> FormDataEntryValue) list"

record world =
  invoices :: "invoice list"
  generate_id :: "invoice list \<Rightarrow> string"
  sql_fault :: "sql_statement \<Rightarrow> js_error option"
  sql_log :: "sql_statement list"
  revalidated :: "string list"
  clock :: Date
  signIn_result :: "string \<Rightarrow> FormData \<Rightarrow> js_error option"

type_synonym 'a action = "world \<Rightarrow> 'a outcome \<times> world"

definition return :: "'a \<Rightarrow> 'a action" where
  "return x w = (Return x, w)"

definition throw :: "js_error \<Rightarrow> 'a action" where
  "throw e w = (Throw e, w)"

text \<open>Sequencing: a thrown error skips the rest.\<close>

definition bind :: "'a action \<Rightarrow> ('a \<Rightarrow> 'b action) \<Rightarrow> 'b action" where
  "bind m f w = (case m w of (Return x, w') \<Rightarrow> f x w' | (Throw e, w') \<Rightarrow> (Throw e, w'))"

text \<open>\<^verbatim>\<open>try { m } catch (error) { h error }\<close>\<close>

definition try_catch :: "'a action \<Rightarrow> (js_error \<Rightarrow> 'a action) \<Rightarrow> 'a action" where
  "try_catch m h w = (case m w of (Return x, w') \<Rightarrow> (Return x, w') | (Throw e, w') \<Rightarrow> h e w')"

subsection \<open>Storage\<close>

text \<open>
  The effect of an accepted statement on the table. The storage generates the id of an
  inserted row; an update touches the three columns of its \<^verbatim>\<open>SET\<close> clause on the
  rows whose id matches.
\<close>

fun execute :: "world \<Rightarrow> sql_statement \<Rightarrow> invoice list \<Rightarrow> invoice list" where
  "execute w (INSERT_INTO_invoices c a s d) rows =
     rows @ [\<lparr>invoice_id = generate_id w rows, customer_id = c, amount = a,
              status = s, date = d\<rparr>]"
| "execute w (UPDATE_invoices c a s i) rows =
     map (\<lambda>r. if invoice_id r = i then r\<lparr>customer_id := c, amount := a, status := s\<rparr> else r) rows"
| "execute w (DELETE_FROM_invoices i) rows =
     filter (\<lambda>r. invoice_id r \<noteq> i) rows"

text \<open>\<^verbatim>\<open>await sql`...`\<close>: one statement, applied whole or rejected whole.\<close>

definition sql :: "sql_statement \<Rightarrow> unit action" where
  "sql stmt w =
     (let w' = w\<lparr>sql_log := sql_log w @ [stmt]\<rparr>
      in case sql_fault w stmt of
           Some e \<Rightarrow> (Throw e, w')
         | None \<Rightarrow> (Return (), w'\<lparr>invoices := execute w stmt (invoices w)\<rparr>))"

subsection \<open>Cache, navigation, identity provider\<close>

definition revalidatePath :: "string \<Rightarrow> unit action" where
  "revalidatePath p w = (Return (), w\<lparr>revalidated := revalidated w @ [p]\<rparr>)"

text \<open>\<^verbatim>\<open>redirect\<close> never returns: it throws, and the framework navigates.\<close>

definition redirect :: "string \<Rightarrow> 'a action" where
  "redirect p = throw (NEXT_REDIRECT p)"

definition signIn :: "string \<Rightarrow> FormData \<Rightarrow> unit action" where
  "signIn provider formData w =
     (case signIn_result w provider formData of
        None \<Rightarrow> (Return (), w)
      | Some e \<Rightarrow> (Throw e, w))"

subsection \<open>The clock and \<^verbatim>\<open>toISOString\<close>\<close>

definition new_Date :: "Date action" where
  "new_Date w = (Return (clock w), w)"

function decimal :: "nat \<Rightarrow> string" where
  "decimal n =
     (if n < 10 then [''0123456789'' ! n]
      else decimal (n div 10) @ [''0123456789'' ! (n mod 10)])"
  by pat_completeness auto
termination
  by (relation "measure id") auto

declare decimal.simps [simp del]

definition padStart :: "nat \<Rightarrow> string \<Rightarrow> string" where
  "padStart n s = replicate (n - length s) CHR ''0'' @ s"

text \<open>
  \<^verbatim>\<open>YYYY-MM-DDTHH:mm:ss.sssZ\<close>; a year outside 0 to 9999 is written with a sign
  and six digits.
\<close>

definition toISOString :: "Date \<Rightarrow> string" where
  "toISOString d =
     (if 0 \<le> year d \<and> year d \<le> 9999 then padStart 4 (decimal (nat (year d)))
      else (if year d < 0 then ''-'' else ''+'') @ padStart 6 (decimal (nat \<bar>year d\<bar>)))
     @ ''-'' @ padStart 2 (decimal (month d))
     @ ''-'' @ padStart 2 (decimal (day d))
     @ ''T'' @ padStart 2 (decimal (hours d))
     @ '':'' @ padStart 2 (decimal (minutes d))
     @ '':'' @ padStart 2 (decimal (seconds d))
     @ ''.'' @ padStart 3 (decimal (milliseconds d))
     @ ''Z''"

text \<open>\<^verbatim>\<open>s.split(sep)\<close> for a separator of one character.\<close>

fun String_split :: "char \<Rightarrow> string \<Rightarrow> string list" where
  "String_split sep [] = [[]]"
| "String_split sep (c # cs) =
     (if c = sep then [] # String_split sep cs
      else (case String_split sep cs of
              [] \<Rightarrow> [[c]]
            | x # xs \<Rightarrow> (c # x) # xs))"

text \<open>\<^verbatim>\<open>array[0]\<close>: \<^verbatim>\<open>undefined\<close> on an empty array.\<close>

definition first_element :: "string list \<Rightarrow> js_value" where
  "first_element xs = (case xs of [] \<Rightarrow> Undefined | x # _ \<Rightarrow> Str x)"

text \<open>\<^verbatim>\<open>formData.get(name)\<close>: the first entry of that name, or \<^verbatim>\<open>null\<close>.\<close>

definition FormData_get :: "FormData \<Rightarrow> string \<Rightarrow> js_value" where
  "FormData_get formData name =
     (case map_of formData name of
        None \<Rightarrow> Null
      | Some (Text s) \<Rightarrow> Str s
      | Some File \<Rightarrow> FileObj)"

section \<open>The server actions (\<^verbatim>\<open>src/app/lib/actions.ts\<close>)\<close>

record State =
  errors :: "(string \<times> string list) list option"
  message :: "string option"

text \<open>
  \<^verbatim>\<open>createInvoice\<close>. The \<^verbatim>\<open>try\<close> block yields \<open>None\<close> when it falls
  through and \<open>Some r\<close> when the \<^verbatim>\<open>catch\<close> clause returns \<open>r\<close> from the action.
\<close>

definition createInvoice :: "State \<Rightarrow> FormData \<Rightarrow> State action" where
  "createInvoice prevState formData =
     (case safeParse CreateInvoice
             [(''customerId'', FormData_get formData ''customerId''),
              (''amount'', FormData_get formData ''amount''),
              (''status'', FormData_get formData ''status'')] of
        ParseError issues \<Rightarrow>
          return \<lparr>errors = Some (fieldErrors issues),
                  message = Some ''Missing Fields. Failed to Create Invoice.''\<rparr>
      | ParseSuccess data \<Rightarrow>
          (let customerId = js_get data ''customerId'';
               amount = js_get data ''amount'';
               status = js_get data ''status'';
               amountInCents = js_times amount (Num (Fin 100))
           in bind new_Date (\<lambda>now.
                let date = first_element (String_split CHR ''T'' (toISOString now))
                in bind
                     (try_catch
                        (bind (sql (INSERT_INTO_invoices customerId amountInCents status date))
                           (\<lambda>_. return None))
                        (\<lambda>error. return (Some
                           \<lparr>errors = None,
                            message = Some ''Database Error: Failed to Create Invoice.''\<rparr>)))
                     (\<lambda>returned.
                        case returned of
                          Some r \<Rightarrow> return r
                        | None \<Rightarrow>
                            bind (revalidatePath ''/dashboard/invoices'')
                              (\<lambda>_. redirect ''/dashboard/invoices'')))))"

definition updateInvoice :: "string \<Rightarrow> State \<Rightarrow> FormData \<Rightarrow> State action" where
  "updateInvoice id' prevState formData =
     (case safeParse UpdateInvoice
             [(''customerId'', FormData_get formData ''customerId''),
              (''amount'', FormData_get formData ''amount''),
              (''status'', FormData_get formData ''status'')] of
        ParseError issues \<Rightarrow>
          return \<lparr>errors = Some (fieldErrors issues),
                  message = Some ''Missing Fields. Failed to Update Invoice.''\<rparr>
      | ParseSuccess data \<Rightarrow>
          (let customerId = js_get data ''customerId'';
               amount = js_get data ''amount'';
               status = js_get data ''status'';
               amountInCents = js_times amount (Num (Fin 100))
           in bind
                (try_catch
                   (bind (sql (UPDATE_invoices customerId amountInCents status id'))
                      (\<lambda>_. return None))
                   (\<lambda>error. return (Some
                      \<lparr>errors = None,
                       message = Some ''Database Error: Failed to Update Invoice.''\<rparr>)))
                (\<lambda>returned.
                   case returned of
                     Some r \<Rightarrow> return r
                   | None \<Rightarrow>
                       bind (revalidatePath ''/dashboard/invoices'')
                         (\<lambda>_. redirect ''/dashboard/invoices''))))"

text \<open>
  \<^verbatim>\<open>deleteInvoice\<close> starts with \<^verbatim>\<open>throw new Error('Failed to Delete Invoice')\<close>;
  the \<^verbatim>\<open>try\<close> statement follows it.
\<close>

definition deleteInvoice :: "string \<Rightarrow> State action" where
  "deleteInvoice id' =
     bind (throw (Error ''Failed to Delete Invoice''))
       (\<lambda>_ :: unit.
          try_catch
            (bind (sql (DELETE_FROM_invoices id'))
               (\<lambda>_. bind (revalidatePath ''/dashboard/invoices'')
                  (\<lambda>_. return \<lparr>errors = None, message = Some ''Deleted Invoice.''\<rparr>)))
            (\<lambda>error. return
               \<lparr>errors = None,
                message = Some ''Database Error: Failed to Delete Invoice.''\<rparr>))"

text \<open>
  \<^verbatim>\<open>authenticate\<close> returns a message, or \<^verbatim>\<open>undefined\<close> (\<open>None\<close>) when
  \<^verbatim>\<open>signIn\<close> returns.
\<close>

definition authenticate :: "string option \<Rightarrow> FormData \<Rightarrow> string option action" where
  "authenticate prevState formData =
     try_catch
       (bind (signIn ''credentials'' formData) (\<lambda>_. return None))
       (\<lambda>error.
          case error of
            AuthError type \<Rightarrow>
              if type = ''CredentialsSignin'' then return (Some ''Invalid credentials.'')
              else return (Some ''Something went wrong.'')
          | _ \<Rightarrow> throw error)"

section \<open>The route guard (\<^verbatim>\<open>src/auth.config.ts\<close>)\<close>

record User =
  user_name :: "string option"
  user_email :: "string option"

record Session =
  user :: "User option"     \<comment> \<open>\<^verbatim>\<open>user?: User\<close>\<close>
  expires :: string

record URL =
  origin :: string
  pathname :: string
  search :: string
  hash :: string

datatype authorized_result =
    Boolean bool
  | Response_redirect URL

definition startsWith :: "string \<Rightarrow> string \<Rightarrow> bool" where
  "startsWith s p \<longleftrightarrow> take (length p) s = p"

text \<open>
  \<^verbatim>\<open>new URL(path, base)\<close> for an absolute path: the origin of the base, that path,
  no query and no fragment.
\<close>

definition new_URL :: "string \<Rightarrow> URL \<Rightarrow> URL" where
  "new_URL p base = base\<lparr>pathname := p, search := [], hash := []\<rparr>"

definition authorized :: "Session option \<Rightarrow> URL \<Rightarrow> authorized_result" where
  "authorized auth nextUrl =
     (let isLoggedIn = (case auth of None \<Rightarrow> False | Some s \<Rightarrow> user s \<noteq> None);
          isOnDashboard = startsWith (pathname nextUrl) ''/dashboard''
      in if isOnDashboard then
           (if isLoggedIn then Boolean True else Boolean False)
         else if isLoggedIn then Response_redirect (new_URL ''/dashboard'' nextUrl)
         else Boolean True)"

section \<open>Notions used to state the properties\<close>

subsection \<open>Decisions of the route guard\<close>

text \<open>
  The guard returns \<^verbatim>\<open>true\<close> (the request may proceed), \<^verbatim>\<open>false\<close> (the caller
  sends the visitor to the login page) or a redirect response.
\<close>

datatype Decision = Allow | Deny | RedirectTo URL

fun decision :: "authorized_result \<Rightarrow> Decision" where
  "decision (Boolean True) = Allow"
| "decision (Boolean False) = Deny"
| "decision (Response_redirect u) = RedirectTo u"

definition isAuthenticated :: "Session option \<Rightarrow> bool" where
  "isAuthenticated auth = (case auth of None \<Rightarrow> False | Some s \<Rightarrow> (case user s of None \<Rightarrow> False | Some u \<Rightarrow> True))"

definition dashboard_home :: "URL \<Rightarrow> URL" where
  "dashboard_home u = \<lparr>origin = origin u, pathname = ''/dashboard'', search = [], hash = []\<rparr>"

subsection \<open>The constraints of the three validated fields\<close>

text \<open>
  What \<^verbatim>\<open>FormSchema\<close> as coded asks of each field that \<^verbatim>\<open>CreateInvoice\<close>
  and \<^verbatim>\<open>UpdateInvoice\<close> keep: \<^verbatim>\<open>customerId\<close> is a string
  (\<^verbatim>\<open>z.string\<close> has no minimum length, so the empty string is accepted, where the
  specification asks for a non-empty one), \<^verbatim>\<open>amount\<close> coerces to a number
  greater than 0, \<^verbatim>\<open>status\<close> is one of the two enumerated strings; and the entry
  of the field error map that a failing field gets.
\<close>

definition customerId_ok :: "js_value \<Rightarrow> bool" where
  "customerId_ok v = (case v of Str s \<Rightarrow> True | _ \<Rightarrow> False)"

definition amount_ok :: "js_value \<Rightarrow> bool" where
  "amount_ok v = (ToNumber v \<noteq> NaN \<and> \<not> js_le (ToNumber v) (Fin 0))"

definition status_ok :: "js_value \<Rightarrow> bool" where
  "status_ok v = (v = Str ''pending'' \<or> v = Str ''paid'')"

definition customerId_errors :: "js_value \<Rightarrow> (string \<times> string list) list" where
  "customerId_errors c =
     (if customerId_ok c then [] else [(''customerId'', [''Please select a customer.''])])"

definition amount_errors :: "js_value \<Rightarrow> (string \<times> string list) list" where
  "amount_errors a =
     (if amount_ok a then []
      else [(''amount'',
              [if ToNumber a = NaN then ''Expected number, received nan''
               else ''Please enter an amount greater than $0.''])])"

definition status_errors :: "js_value \<Rightarrow> (string \<times> string list) list" where
  "status_errors s =
     (if status_ok s then []
      else [(''status'',
              [case s of
                 Str x \<Rightarrow> invalid_enum_value_message [''pending'', ''paid''] x
               | _ \<Rightarrow> ''Please select an invoice status.''])])"

text \<open>The field errors of a validation, empty when it succeeds.\<close>

definition validation_errors :: "ZodObject \<Rightarrow> js_object \<Rightarrow> (string \<times> string list) list" where
  "validation_errors schema obj =
     (case safeParse schema obj of ParseSuccess data \<Rightarrow> [] | ParseError issues \<Rightarrow> fieldErrors issues)"

text \<open>The object that both actions build from the form and hand to the validator.\<close>

definition form_object :: "FormData \<Rightarrow> js_object" where
  "form_object fd = [(''customerId'', FormData_get fd ''customerId''),
              (''amount'', FormData_get fd ''amount''),
              (''status'', FormData_get fd ''status'')]"

text \<open>The statements that the actions submit for a form that passed validation.\<close>

definition insert_statement :: "FormData \<Rightarrow> world \<Rightarrow> sql_statement" where
  "insert_statement fd w =
     INSERT_INTO_invoices (FormData_get fd ''customerId'')
       (js_times (Num (ToNumber (FormData_get fd ''amount''))) (Num (Fin 100)))
       (FormData_get fd ''status'')
       (first_element (String_split CHR ''T'' (toISOString (clock w))))"

definition update_statement :: "string \<Rightarrow> FormData \<Rightarrow> sql_statement" where
  "update_statement i fd =
     UPDATE_invoices (FormData_get fd ''customerId'')
       (js_times (Num (ToNumber (FormData_get fd ''amount''))) (Num (Fin 100)))
       (FormData_get fd ''status'') i"

subsection \<open>Calendar dates\<close>

definition is_decimal_digit :: "char \<Rightarrow> bool" where
  "is_decimal_digit c \<longleftrightarrow> c \<in> set ''0123456789''"

definition YYYY_MM_DD :: "Date \<Rightarrow> string" where
  "YYYY_MM_DD d =
     padStart 4 (decimal (nat (year d))) @ ''-'' @ padStart 2 (decimal (month d))
       @ ''-'' @ padStart 2 (decimal (day d))"

definition is_YYYY_MM_DD :: "string \<Rightarrow> bool" where
  "is_YYYY_MM_DD s \<longleftrightarrow>
     length s = 10 \<and> list_all is_decimal_digit (take 4 s) \<and> s ! 4 = CHR ''-'' \<and>
     list_all is_decimal_digit (take 2 (drop 5 s)) \<and> s ! 7 = CHR ''-'' \<and>
     list_all is_decimal_digit (drop 8 s)"

subsection \<open>A sample environment\<close>

text \<open>
  Two stored invoices, a storage that accepts every statement, an identity provider
  that accepts every sign-in, and the clock at 2024-03-05T13:04:59.007Z.
\<close>

definition example_world :: world where
  "example_world =
     \<lparr>invoices =
        [\<lparr>invoice_id = ''i1'', customer_id = Str ''c1'', amount = Num (Fin 500),
          status = Str ''pending'', date = Str ''2024-01-01''\<rparr>,
         \<lparr>invoice_id = ''i2'', customer_id = Str ''c2'', amount = Num (Fin 1250),
          status = Str ''paid'', date = Str ''2024-02-03''\<rparr>],
      generate_id = (\<lambda>rows. ''i'' @ decimal (Suc (length rows))),
      sql_fault = (\<lambda>stmt. None),
      sql_log = [],
      revalidated = [],
      clock = \<lparr>year = 2024, month = 3, day = 5, hours = 13, minutes = 4, seconds = 59,
                milliseconds = 7\<rparr>,
      signIn_result = (\<lambda>provider formData. None)\<rparr>"

definition example_form :: "string \<Rightarrow> FormData" where
  "example_form amt =
     [(''customerId'', Text ''c1''), (''amount'', Text amt), (''status'', Text ''paid'')]"


definition example_session :: Session where
  "example_session =
     \<lparr>user = Some \<lparr>user_name = Some ''User'', user_email = Some ''user@nextmail.com''\<rparr>,
      expires = ''2024-04-05T00:00:00.000Z''\<rparr>"

definition example_url :: "string \<Rightarrow> URL" where
  "example_url p = \<lparr>origin = ''http://localhost:3000'', pathname = p, search = [], hash = []\<rparr>"

section \<open>Properties\<close>

subsection \<open>The rounding of Numbers\<close>

text \<open>
  The exponent that \<open>floor_log2\<close> computes from the bit lengths of numerator and
  denominator is the binary exponent of a positive rational, and \<open>round_half_even\<close>
  returns a nearest integer, the even one on a tie.
\<close>

lemma bit_length_pos: "0 < n \<Longrightarrow> 1 \<le> bit_length n"
proof (induction n rule: bit_length.induct)
  case (1 n)
  have "0 \<le> bit_length (n div 2)"
  proof (cases "0 < n div 2")
    case True
    then show ?thesis using 1 by simp
  next
    case False
    then show ?thesis by (subst bit_length.simps) simp
  qed
  then show ?case using 1(2) by (subst bit_length.simps) simp
qed

lemma bit_length_bounds:
  "0 < n \<Longrightarrow> 2 ^ nat (bit_length n - 1) \<le> n \<and> n < 2 ^ nat (bit_length n)"
proof (induction n rule: bit_length.induct)
  case (1 n)
  show ?case
  proof (cases "n = 1")
    case True
    have "bit_length 1 = 1"
      by (subst bit_length.simps, subst bit_length.simps) simp
    then show ?thesis using True by simp
  next
    case False
    then have m: "0 < n div 2" using 1(2) by simp
    let ?b = "bit_length (n div 2)"
    have b: "1 \<le> ?b" using m by (rule bit_length_pos)
    have ih: "2 ^ nat (?b - 1) \<le> n div 2" "n div 2 < 2 ^ nat ?b"
      using 1(1) m 1(2) by simp_all
    have bl: "bit_length n = 1 + ?b"
      using 1(2) by (subst bit_length.simps) simp
    have e1: "nat (bit_length n - 1) = Suc (nat (?b - 1))" using bl b by simp
    have e2: "nat (bit_length n) = Suc (nat ?b)" using bl b by simp
    have "2 * (n div 2) \<le> n" by simp
    moreover have "n < 2 * (n div 2 + 1)" by simp
    ultimately show ?thesis
      unfolding e1 e2 using ih by simp
  qed
qed

lemma pow2_powi: "pow2 k = 2 powi k"
  by (simp add: pow2_def power_int_def field_simps)

lemma floor_log2_bounds:
  assumes "0 < a"
  shows "pow2 (floor_log2 a) \<le> a \<and> a < pow2 (floor_log2 a + 1)"
proof -
  obtain p q where pq: "quotient_of a = (p, q)" by (cases "quotient_of a")
  have q: "0 < q" using quotient_of_denom_pos [OF pq] .
  have a: "a = of_int p / of_int q" using quotient_of_div [OF pq] .
  have p: "0 < p" using assms q unfolding a by (simp add: zero_less_divide_iff)
  let ?bp = "bit_length p" and ?bq = "bit_length q"
  note bp = bit_length_bounds [OF p] bit_length_pos [OF p]
  note bq = bit_length_bounds [OF q] bit_length_pos [OF q]
  have P1: "(2::rat) powi (?bp - 1) \<le> of_int p"
  proof -
    have "(of_int (2 ^ nat (?bp - 1)) :: rat) \<le> of_int p"
      using bp(1) by (simp only: of_int_le_iff)
    then show ?thesis using bp(2) by (simp add: power_int_def)
  qed
  have P2: "of_int p < (2::rat) powi ?bp"
  proof -
    have "(of_int p :: rat) < of_int (2 ^ nat ?bp)"
      using bp(1) by (simp only: of_int_less_iff)
    then show ?thesis using bp(2) by (simp add: power_int_def)
  qed
  have Q1: "(2::rat) powi (?bq - 1) \<le> of_int q"
  proof -
    have "(of_int (2 ^ nat (?bq - 1)) :: rat) \<le> of_int q"
      using bq(1) by (simp only: of_int_le_iff)
    then show ?thesis using bq(2) by (simp add: power_int_def)
  qed
  have Q2: "of_int q < (2::rat) powi ?bq"
  proof -
    have "(of_int q :: rat) < of_int (2 ^ nat ?bq)"
      using bq(1) by (simp only: of_int_less_iff)
    then show ?thesis using bq(2) by (simp add: power_int_def)
  qed
  let ?k = "?bp - ?bq"
  have qpos: "(0::rat) < of_int q" using q by simp
  have upper: "a < 2 powi (?k + 1)"
  proof -
    have "of_int p < (2::rat) powi ?bp" by (rule P2)
    also have "\<dots> = 2 powi (?k + 1) * 2 powi (?bq - 1)"
      by (simp add: power_int_add [symmetric])
    also have "\<dots> \<le> 2 powi (?k + 1) * of_int q"
      using Q1 by (intro mult_left_mono) simp_all
    finally show ?thesis unfolding a using qpos by (simp add: pos_divide_less_eq)
  qed
  have lower: "2 powi (?k - 1) < a"
  proof -
    have "2 powi (?k - 1) * of_int q < (2::rat) powi (?k - 1) * 2 powi ?bq"
      using Q2 by (intro mult_strict_left_mono) simp_all
    also have "\<dots> = 2 powi (?bp - 1)"
      by (simp add: power_int_add [symmetric])
    also have "\<dots> \<le> of_int p" by (rule P1)
    finally show ?thesis unfolding a using qpos by (simp add: pos_less_divide_eq)
  qed
  show ?thesis
  proof (cases "pow2 ?k \<le> a")
    case True
    then have "floor_log2 a = ?k" by (simp add: floor_log2_def pq)
    then show ?thesis using True upper by (simp add: pow2_powi)
  next
    case False
    then have "floor_log2 a = ?k - 1" by (simp add: floor_log2_def pq)
    then show ?thesis using False lower by (simp add: pow2_powi)
  qed
qed


lemma round_half_even_nearest: "\<bar>of_int (round_half_even x) - x\<bar> \<le> 1 / 2"
proof -
  have "of_int \<lfloor>x\<rfloor> \<le> x" "x < of_int \<lfloor>x\<rfloor> + 1"
    by linarith+
  then show ?thesis
    by (auto simp: round_half_even_def Let_def)
qed

lemma round_half_even_tie:
  "x - of_int \<lfloor>x\<rfloor> = 1 / 2 \<Longrightarrow> even (round_half_even x)"
  by (simp add: round_half_even_def Let_def)

subsection \<open>Evaluation of the sample inputs\<close>

lemma ToNumber_abc: "ToNumber (Str ''abc'') = NaN"
  by code_simp

lemma ToNumber_empty: "ToNumber (Str []) = Fin 0"
  by code_simp

lemma ToNumber_5: "ToNumber (Str ''5'') = Fin 5"
  by code_simp

lemma ToNumber_19_99: "ToNumber (Str ''19.99'') = Fin (5626684784446013 / 2 ^ 48)"
  by code_simp

lemma multiply_19_99:
  "js_multiply (Fin (5626684784446013 / 2 ^ 48)) (Fin 100) = Fin (1999 - 1 / 2 ^ 42)"
  by code_simp

lemma example_form_get:
  "FormData_get (example_form amt) ''customerId'' = Str ''c1''"
  "FormData_get (example_form amt) ''amount'' = Str amt"
  "FormData_get (example_form amt) ''status'' = Str ''paid''"
  by (simp_all add: example_form_def FormData_get_def)

lemma example_date: "first_element (String_split CHR ''T'' (toISOString (clock example_world))) = Str ''2024-03-05''"
  by code_simp

lemma multiply_5: "js_multiply (Fin 5) (Fin 100) = Fin 500"
  by code_simp

lemma times_5: "js_times (Num (ToNumber (Str ''5''))) (Num (Fin 100)) = Num (Fin 500)"
  by (simp add: js_times_def ToNumber_5 multiply_5 del: ToNumber.simps(3) js_multiply.simps)

lemma times_19_99:
  "js_times (Num (ToNumber (Str ''19.99''))) (Num (Fin 100)) = Num (Fin (1999 - 1 / 2 ^ 42))"
  by (simp only: js_times_def ToNumber.simps(4) ToNumber_19_99 multiply_19_99)

lemma example_id: "generate_id example_world (invoices example_world) = ''i3''"
  by code_simp

lemma example_form_ok:
  "customerId_ok (FormData_get (example_form ''5'') ''customerId'')"
  "amount_ok (FormData_get (example_form ''5'') ''amount'')"
  "status_ok (FormData_get (example_form ''5'') ''status'')"
  by (simp_all add: example_form_get customerId_ok_def amount_ok_def status_ok_def ToNumber_5
        del: ToNumber.simps)

lemma example_form_19_99_ok:
  "customerId_ok (FormData_get (example_form ''19.99'') ''customerId'')"
  "amount_ok (FormData_get (example_form ''19.99'') ''amount'')"
  "status_ok (FormData_get (example_form ''19.99'') ''status'')"
  by (simp_all add: example_form_get customerId_ok_def amount_ok_def status_ok_def ToNumber_19_99
        del: ToNumber.simps)

lemma example_world_simps:
  "sql_fault example_world stmt = None"
  "invoices example_world =
     [\<lparr>invoice_id = ''i1'', customer_id = Str ''c1'', amount = Num (Fin 500),
       status = Str ''pending'', date = Str ''2024-01-01''\<rparr>,
      \<lparr>invoice_id = ''i2'', customer_id = Str ''c2'', amount = Num (Fin 1250),
       status = Str ''paid'', date = Str ''2024-02-03''\<rparr>]"
  by (simp_all add: example_world_def)




subsection \<open>The validator on the object of the three fields\<close>

lemma CreateInvoice_shape:
  "CreateInvoice =
     [(''customerId'', ZodString (Some ''Please select a customer.'')),
      (''amount'', ZodNumber True [Min (Fin 0) False ''Please enter an amount greater than $0.'']),
      (''status'', ZodEnum [''pending'', ''paid''] (Some ''Please select an invoice status.''))]"
  by (simp add: CreateInvoice_def FormSchema_def omit_def)

lemma UpdateInvoice_shape: "UpdateInvoice = CreateInvoice"
  by (simp add: CreateInvoice_def UpdateInvoice_def)

lemma FormData_get_defined [simp]: "FormData_get fd k \<noteq> Undefined"
  by (simp add: FormData_get_def split: option.splits FormDataEntryValue.splits)

lemma parse_customerId:
  "v \<noteq> Undefined \<Longrightarrow>
   ZodType_parse (ZodString (Some ''Please select a customer.'')) [''customerId''] v =
     (if customerId_ok v then []
      else [\<lparr>issue_code = invalid_type, issue_path = [''customerId''],
              issue_message = ''Please select a customer.''\<rparr>], v)"
  by (cases v) (auto simp: customerId_ok_def customMap_def)

lemma parse_amount:
  "ZodType_parse (ZodNumber True [Min (Fin 0) False ''Please enter an amount greater than $0.''])
     [''amount''] v =
     (if ToNumber v = NaN
      then [\<lparr>issue_code = invalid_type, issue_path = [''amount''],
              issue_message = ''Expected number, received nan''\<rparr>]
      else if js_le (ToNumber v) (Fin 0)
      then [\<lparr>issue_code = too_small, issue_path = [''amount''],
              issue_message = ''Please enter an amount greater than $0.''\<rparr>]
      else [], Num (ToNumber v))"
  by (simp add: invalid_type_message_def)

lemma parse_status:
  "v \<noteq> Undefined \<Longrightarrow>
   ZodType_parse (ZodEnum [''pending'', ''paid''] (Some ''Please select an invoice status.''))
     [''status''] v =
     (if status_ok v then []
      else [\<lparr>issue_code = (case v of Str x \<Rightarrow> invalid_enum_value | _ \<Rightarrow> invalid_type),
              issue_path = [''status''],
              issue_message =
                (case v of
                   Str x \<Rightarrow> invalid_enum_value_message [''pending'', ''paid''] x
                 | _ \<Rightarrow> ''Please select an invoice status.'')\<rparr>], v)"
  by (cases v) (auto simp: status_ok_def customMap_def)

lemma safeParse_CreateInvoice_ok:
  assumes "customerId_ok c" "amount_ok a" "status_ok s"
  shows "safeParse CreateInvoice [(''customerId'', c), (''amount'', a), (''status'', s)] =
           ParseSuccess [(''customerId'', c), (''amount'', Num (ToNumber a)), (''status'', s)]"
proof -
  have "c \<noteq> Undefined" "s \<noteq> Undefined"
    using assms by (auto simp: customerId_ok_def status_ok_def)
  then show ?thesis
    using assms
    by (simp add: safeParse_def CreateInvoice_shape js_get_def parse_customerId parse_amount
                  parse_status amount_ok_def del: ZodType_parse.simps)
qed

lemma safeParse_CreateInvoice_error:
  assumes "c \<noteq> Undefined" "s \<noteq> Undefined"
      and "\<not> (customerId_ok c \<and> amount_ok a \<and> status_ok s)"
  shows "\<exists>issues. safeParse CreateInvoice [(''customerId'', c), (''amount'', a), (''status'', s)] =
           ParseError issues \<and>
           fieldErrors issues = customerId_errors c @ amount_errors a @ status_errors s"
  using assms
  by (auto simp add: safeParse_def CreateInvoice_shape js_get_def parse_customerId parse_amount
                parse_status amount_ok_def fieldErrors_def customerId_errors_def
                amount_errors_def status_errors_def simp del: ZodType_parse.simps)

lemma validation_errors_CreateInvoice:
  "validation_errors CreateInvoice (form_object fd) =
     customerId_errors (FormData_get fd ''customerId'')
       @ amount_errors (FormData_get fd ''amount'')
       @ status_errors (FormData_get fd ''status'')"
proof (cases "customerId_ok (FormData_get fd ''customerId'') \<and>
              amount_ok (FormData_get fd ''amount'') \<and>
              status_ok (FormData_get fd ''status'')")
  case True
  then show ?thesis
    by (simp add: validation_errors_def form_object_def safeParse_CreateInvoice_ok
          customerId_errors_def amount_errors_def status_errors_def)
next
  case False
  from safeParse_CreateInvoice_error [OF _ _ False]
  obtain issues where
    "safeParse CreateInvoice (form_object fd) = ParseError issues"
    "fieldErrors issues = customerId_errors (FormData_get fd ''customerId'')
       @ amount_errors (FormData_get fd ''amount'')
       @ status_errors (FormData_get fd ''status'')"
    by (auto simp: form_object_def)
  then show ?thesis
    by (simp add: validation_errors_def)
qed

lemma amount_entry:
  "map_of (validation_errors CreateInvoice (form_object fd)) ''amount'' =
     (if amount_ok (FormData_get fd ''amount'') then None
      else Some [if ToNumber (FormData_get fd ''amount'') = NaN
                 then ''Expected number, received nan''
                 else ''Please enter an amount greater than $0.''])"
  unfolding validation_errors_CreateInvoice
  by (simp add: customerId_errors_def amount_errors_def status_errors_def
        del: ToNumber.simps)

lemma safeParse_cong:
  assumes "js_get obj' ''customerId'' = js_get obj ''customerId''"
      and "js_get obj' ''amount'' = js_get obj ''amount''"
      and "js_get obj' ''status'' = js_get obj ''status''"
  shows "safeParse CreateInvoice obj' = safeParse CreateInvoice obj"
  by (simp add: safeParse_def CreateInvoice_shape assms del: ZodType_parse.simps)

subsection \<open>The two outcomes of validation in \<^verbatim>\<open>createInvoice\<close> and \<^verbatim>\<open>updateInvoice\<close>\<close>

lemma createInvoice_invalid:
  assumes "\<not> (customerId_ok (FormData_get fd ''customerId'') \<and>
              amount_ok (FormData_get fd ''amount'') \<and>
              status_ok (FormData_get fd ''status''))"
  shows "createInvoice prev fd w =
           (Return \<lparr>errors = Some (customerId_errors (FormData_get fd ''customerId'')
                                    @ amount_errors (FormData_get fd ''amount'')
                                    @ status_errors (FormData_get fd ''status'')),
                    message = Some ''Missing Fields. Failed to Create Invoice.''\<rparr>, w)"
proof -
  obtain issues where
    "safeParse CreateInvoice [(''customerId'', FormData_get fd ''customerId''),
        (''amount'', FormData_get fd ''amount''), (''status'', FormData_get fd ''status'')] =
       ParseError issues"
    "fieldErrors issues = customerId_errors (FormData_get fd ''customerId'')
                                    @ amount_errors (FormData_get fd ''amount'')
                                    @ status_errors (FormData_get fd ''status'')"
    using safeParse_CreateInvoice_error [OF _ _ assms] by auto
  then show ?thesis
    by (simp add: createInvoice_def return_def)
qed

lemma updateInvoice_invalid:
  assumes "\<not> (customerId_ok (FormData_get fd ''customerId'') \<and>
              amount_ok (FormData_get fd ''amount'') \<and>
              status_ok (FormData_get fd ''status''))"
  shows "updateInvoice i prev fd w =
           (Return \<lparr>errors = Some (customerId_errors (FormData_get fd ''customerId'')
                                    @ amount_errors (FormData_get fd ''amount'')
                                    @ status_errors (FormData_get fd ''status'')),
                    message = Some ''Missing Fields. Failed to Update Invoice.''\<rparr>, w)"
proof -
  obtain issues where
    "safeParse CreateInvoice [(''customerId'', FormData_get fd ''customerId''),
        (''amount'', FormData_get fd ''amount''), (''status'', FormData_get fd ''status'')] =
       ParseError issues"
    "fieldErrors issues = customerId_errors (FormData_get fd ''customerId'')
                                    @ amount_errors (FormData_get fd ''amount'')
                                    @ status_errors (FormData_get fd ''status'')"
    using safeParse_CreateInvoice_error [OF _ _ assms] by auto
  then show ?thesis
    by (simp add: updateInvoice_def return_def UpdateInvoice_shape)
qed

lemma createInvoice_valid:
  assumes "customerId_ok (FormData_get fd ''customerId'')"
          "amount_ok (FormData_get fd ''amount'')"
          "status_ok (FormData_get fd ''status'')"
  shows "createInvoice prev fd w =
           (case sql_fault w (insert_statement fd w) of
              Some e \<Rightarrow>
                (Return \<lparr>errors = None,
                         message = Some ''Database Error: Failed to Create Invoice.''\<rparr>,
                 w\<lparr>sql_log := sql_log w @ [insert_statement fd w]\<rparr>)
            | None \<Rightarrow>
                (Throw (NEXT_REDIRECT ''/dashboard/invoices''),
                 w\<lparr>sql_log := sql_log w @ [insert_statement fd w],
                   invoices := execute w (insert_statement fd w) (invoices w),
                   revalidated := revalidated w @ [''/dashboard/invoices'']\<rparr>))"
  by (simp add: createInvoice_def safeParse_CreateInvoice_ok [OF assms] js_get_def Let_def
        bind_def new_Date_def try_catch_def sql_def return_def revalidatePath_def redirect_def
        throw_def insert_statement_def split: option.splits)

lemma updateInvoice_valid:
  assumes "customerId_ok (FormData_get fd ''customerId'')"
          "amount_ok (FormData_get fd ''amount'')"
          "status_ok (FormData_get fd ''status'')"
  shows "updateInvoice i prev fd w =
           (case sql_fault w (update_statement i fd) of
              Some e \<Rightarrow>
                (Return \<lparr>errors = None,
                         message = Some ''Database Error: Failed to Update Invoice.''\<rparr>,
                 w\<lparr>sql_log := sql_log w @ [update_statement i fd]\<rparr>)
            | None \<Rightarrow>
                (Throw (NEXT_REDIRECT ''/dashboard/invoices''),
                 w\<lparr>sql_log := sql_log w @ [update_statement i fd],
                   invoices := execute w (update_statement i fd) (invoices w),
                   revalidated := revalidated w @ [''/dashboard/invoices'']\<rparr>))"
  by (simp add: updateInvoice_def UpdateInvoice_shape safeParse_CreateInvoice_ok [OF assms]
        js_get_def Let_def
        bind_def try_catch_def sql_def return_def revalidatePath_def redirect_def
        throw_def update_statement_def split: option.splits)

lemma FormData_get_cong:
  "map_of fd' k = map_of fd k \<Longrightarrow> FormData_get fd' k = FormData_get fd k"
  by (simp add: FormData_get_def)

lemma map_of_filter_other:
  "k \<noteq> d \<Longrightarrow> map_of (filter (\<lambda>e. fst e \<noteq> d) xs) k = map_of xs k"
  by (induction xs) auto

lemma createInvoice_cong:
  assumes "FormData_get fd' ''customerId'' = FormData_get fd ''customerId''"
      and "FormData_get fd' ''amount'' = FormData_get fd ''amount''"
      and "FormData_get fd' ''status'' = FormData_get fd ''status''"
  shows "createInvoice prev fd' w = createInvoice prev fd w"
  by (simp add: createInvoice_def assms)

subsection \<open>The date part of \<^verbatim>\<open>toISOString\<close>\<close>

lemma digit_nth: "k < 10 \<Longrightarrow> is_decimal_digit (''0123456789'' ! k)"
  unfolding is_decimal_digit_def by (rule nth_mem) simp

lemma decimal_digits: "list_all is_decimal_digit (decimal n)"
proof (induction n rule: decimal.induct)
  case (1 n)
  show ?case
  proof (cases "n < 10")
    case True
    then show ?thesis by (subst decimal.simps) (simp add: digit_nth)
  next
    case False
    then have "list_all is_decimal_digit (decimal (n div 10))" using 1 by simp
    moreover have "is_decimal_digit (''0123456789'' ! (n mod 10))"
      by (rule digit_nth) simp
    ultimately show ?thesis using False by (subst decimal.simps) simp
  qed
qed

lemma length_decimal: "0 < k \<Longrightarrow> n < 10 ^ k \<Longrightarrow> length (decimal n) \<le> k"
proof (induction n arbitrary: k rule: decimal.induct)
  case (1 n)
  show ?case
  proof (cases "n < 10")
    case True
    then show ?thesis using 1(2) by (subst decimal.simps) simp
  next
    case False
    have "k \<noteq> 1" using False 1(3) by auto
    then obtain j where k: "k = Suc j" "0 < j"
      using 1(2) by (cases k) auto
    have "n < 10 ^ j * 10" using 1(3) k by simp
    then have "n div 10 < 10 ^ j" by (rule less_mult_imp_div_less)
    then have le: "length (decimal (n div 10)) \<le> j" using 1(1) [OF False k(2)] by simp
    have "decimal n = decimal (n div 10) @ [''0123456789'' ! (n mod 10)]"
      using False by (subst decimal.simps) simp
    then have "length (decimal n) = Suc (length (decimal (n div 10)))" by simp
    with le show ?thesis unfolding k(1) by linarith
  qed
qed

lemma padStart_length: "length s \<le> k \<Longrightarrow> length (padStart k s) = k"
  by (simp add: padStart_def)

lemma padStart_digits: "list_all is_decimal_digit s \<Longrightarrow> list_all is_decimal_digit (padStart k s)"
proof -
  assume "list_all is_decimal_digit s"
  moreover have "is_decimal_digit CHR ''0''" by (simp add: is_decimal_digit_def)
  ultimately show ?thesis
    unfolding padStart_def by (auto simp: list_all_iff)
qed

lemma String_split_first:
  "sep \<notin> set xs \<Longrightarrow> String_split sep (xs @ sep # ys) = xs # String_split sep ys"
  by (induction xs) auto

lemma digits_no_T:
  assumes "list_all is_decimal_digit s"
  shows "CHR ''T'' \<notin> set s"
proof
  assume "CHR ''T'' \<in> set s"
  then have "is_decimal_digit CHR ''T''"
    using assms by (simp add: list_all_iff)
  then show False
    by (simp add: is_decimal_digit_def)
qed

lemma toISOString_date:
  assumes "0 \<le> year d" "year d \<le> 9999"
  shows "first_element (String_split CHR ''T'' (toISOString d)) = Str (YYYY_MM_DD d)"
proof -
  have "CHR ''T'' \<notin> set (YYYY_MM_DD d)"
    using digits_no_T [OF padStart_digits [OF decimal_digits]]
    by (simp add: YYYY_MM_DD_def)
  moreover have "toISOString d = YYYY_MM_DD d @ CHR ''T'' #
     (padStart 2 (decimal (hours d))
     @ '':'' @ padStart 2 (decimal (minutes d))
     @ '':'' @ padStart 2 (decimal (seconds d))
     @ ''.'' @ padStart 3 (decimal (milliseconds d))
     @ ''Z'')"
    using assms by (simp add: toISOString_def YYYY_MM_DD_def)
  ultimately show ?thesis
    by (simp add: String_split_first first_element_def)
qed

lemma YYYY_MM_DD_shape:
  assumes "length Y = 4" "length M = 2" "length D = 2"
      and "list_all is_decimal_digit Y" "list_all is_decimal_digit M" "list_all is_decimal_digit D"
  shows "is_YYYY_MM_DD (Y @ ''-'' @ M @ ''-'' @ D)"
proof -
  obtain y1 y2 y3 y4 where Y: "Y = [y1, y2, y3, y4]"
    using assms(1) by (auto simp: length_Suc_conv numeral_eq_Suc)
  obtain m1 m2 where M: "M = [m1, m2]"
    using assms(2) by (auto simp: length_Suc_conv numeral_eq_Suc)
  obtain d1 d2 where D: "D = [d1, d2]"
    using assms(3) by (auto simp: length_Suc_conv numeral_eq_Suc)
  show ?thesis
    using assms(4-6) unfolding Y M D is_YYYY_MM_DD_def by simp
qed

lemma YYYY_MM_DD_form:
  assumes "0 \<le> year d" "year d \<le> 9999" "month d \<le> 12" "day d \<le> 31"
  shows "is_YYYY_MM_DD (YYYY_MM_DD d)"
proof -
  have "nat (year d) < 10 ^ 4" using assms by simp
  then have lenY: "length (padStart 4 (decimal (nat (year d)))) = 4"
    by (intro padStart_length length_decimal) simp_all
  have "month d < 10 ^ 2" using assms by simp
  then have lenM: "length (padStart 2 (decimal (month d))) = 2"
    by (intro padStart_length length_decimal) simp_all
  have "day d < 10 ^ 2" using assms by simp
  then have lenD: "length (padStart 2 (decimal (day d))) = 2"
    by (intro padStart_length length_decimal) simp_all
  show ?thesis
    unfolding YYYY_MM_DD_def
    by (rule YYYY_MM_DD_shape [OF lenY lenM lenD]) (rule padStart_digits [OF decimal_digits])+
qed

lemma startsWith_prefix: "startsWith s p \<longleftrightarrow> prefix p s"
  unfolding startsWith_def
  by (metis prefix_def append_eq_conv_conj append_take_drop_id)

section \<open>The claims\<close>

text \<open>
  C1. The claim: for a valid amount of at most two decimal digits the stored amount is
  \<open>round (amount * 100)\<close> exactly, 1999 for 19.99. Both actions compute
  \<^verbatim>\<open>amount * 100\<close> on binary64 numbers and bind the product as it is, without
  rounding to an integer. For the amount \<^verbatim>\<open>19.99\<close> the nearest binary64 number is
  \<open>5626684784446013 / 2 ^ 48\<close>, and its product with 100 rounds to
  \<open>1999 - 1 / 2 ^ 42\<close>, which JavaScript prints as 1998.9999999999998: this is what
  \<^verbatim>\<open>createInvoice\<close> inserts and \<^verbatim>\<open>updateInvoice\<close> writes.
\<close>

theorem createInvoice_cents_drift:
  "invoices (snd (createInvoice prev (example_form ''19.99'') example_world)) =
     invoices example_world @
       [\<lparr>invoice_id = ''i3'', customer_id = Str ''c1'',
         amount = Num (Fin (1999 - 1 / 2 ^ 42)),
         status = Str ''paid'', date = Str ''2024-03-05''\<rparr>] \<and>
   map amount (invoices (snd (updateInvoice ''i1'' prev (example_form ''19.99'') example_world))) =
     [Num (Fin (1999 - 1 / 2 ^ 42)), Num (Fin 1250)] \<and>
   Fin (1999 - 1 / 2 ^ 42) \<noteq> Fin 1999"
proof -
  have c: "invoices (snd (createInvoice prev (example_form ''19.99'') example_world)) =
     invoices example_world @
       [\<lparr>invoice_id = ''i3'', customer_id = Str ''c1'',
         amount = js_times (Num (ToNumber (Str ''19.99''))) (Num (Fin 100)),
         status = Str ''paid'', date = Str ''2024-03-05''\<rparr>]"
    by (simp add: createInvoice_valid [OF example_form_19_99_ok] example_world_simps(1)
          insert_statement_def example_form_get example_date example_id
          del: ToNumber.simps(3))
  have u: "map amount (invoices (snd (updateInvoice ''i1'' prev (example_form ''19.99'')
             example_world))) =
     [js_times (Num (ToNumber (Str ''19.99''))) (Num (Fin 100)), Num (Fin 1250)]"
    by (simp add: updateInvoice_valid [OF example_form_19_99_ok] example_world_simps
          update_statement_def example_form_get del: ToNumber.simps(3))
  have "Fin (1999 - 1 / 2 ^ 42) \<noteq> Fin 1999" by simp
  with c u show ?thesis
    by (simp only: times_19_99 simp_thms)
qed

text \<open>
  C2. The claim: for every id, \<^verbatim>\<open>deleteInvoice(id)\<close> removes the stored invoice and
  returns the message \<^verbatim>\<open>Deleted Invoice.\<close>, or the database error message when the
  storage fails, and does not raise. The action as written raises
  \<^verbatim>\<open>Error('Failed to Delete Invoice')\<close> for every id, before the storage is reached:
  no statement is submitted, no cache is invalidated, nothing is deleted.
\<close>

theorem deleteInvoice_throws:
  "deleteInvoice i w = (Throw (Error ''Failed to Delete Invoice''), w)"
  by (simp add: deleteInvoice_def bind_def throw_def)




text \<open>
  C4. On a path that starts with \<^verbatim>\<open>/dashboard\<close> the guard allows exactly the
  authenticated visitors and denies the others; elsewhere it redirects an authenticated
  visitor to the dashboard home and allows everyone else.
\<close>

theorem authorized_decision:
  "(prefix ''/dashboard'' (pathname nextUrl) \<longrightarrow>
      (decision (authorized auth nextUrl) = Allow \<longleftrightarrow> isAuthenticated auth) \<and>
      (\<not> isAuthenticated auth \<longrightarrow> decision (authorized auth nextUrl) = Deny)) \<and>
   (\<not> prefix ''/dashboard'' (pathname nextUrl) \<and> isAuthenticated auth \<longrightarrow>
      decision (authorized auth nextUrl) = RedirectTo (dashboard_home nextUrl)) \<and>
   (\<not> prefix ''/dashboard'' (pathname nextUrl) \<and> \<not> isAuthenticated auth \<longrightarrow>
      decision (authorized auth nextUrl) = Allow)"
  by (cases nextUrl)
     (auto simp: authorized_def startsWith_prefix isAuthenticated_def dashboard_home_def new_URL_def
           split: option.splits)

theorem authorized_decision_witness:
  "prefix ''/dashboard'' (pathname (example_url ''/dashboard/invoices'')) \<and>
   isAuthenticated (Some example_session) \<and> \<not> isAuthenticated None \<and>
   decision (authorized (Some example_session) (example_url ''/dashboard/invoices'')) = Allow \<and>
   decision (authorized None (example_url ''/dashboard/invoices'')) = Deny \<and>
   \<not> prefix ''/dashboard'' (pathname (example_url ''/login'')) \<and>
   decision (authorized (Some example_session) (example_url ''/login'')) =
     RedirectTo (example_url ''/dashboard'') \<and>
   decision (authorized None (example_url ''/login'')) = Allow"
  using authorized_decision [of "example_url ''/dashboard/invoices''" "Some example_session"]
        authorized_decision [of "example_url ''/dashboard/invoices''" None]
        authorized_decision [of "example_url ''/login''" "Some example_session"]
        authorized_decision [of "example_url ''/login''" None]
  by (simp add: example_url_def example_session_def isAuthenticated_def dashboard_home_def)

text \<open>
  C5. When the form is valid and the storage rejects the insert, \<^verbatim>\<open>createInvoice\<close>
  returns exactly the message \<^verbatim>\<open>Database Error: Failed to Create Invoice.\<close>: the
  statement was submitted once, no path was revalidated, no row was added, and the action
  returned instead of redirecting.
\<close>

theorem createInvoice_storage_failure:
  assumes "customerId_ok (FormData_get fd ''customerId'')"
      and "amount_ok (FormData_get fd ''amount'')"
      and "status_ok (FormData_get fd ''status'')"
      and "sql_fault w (insert_statement fd w) = Some e"
  shows "createInvoice prev fd w =
           (Return \<lparr>errors = None,
                    message = Some ''Database Error: Failed to Create Invoice.''\<rparr>,
            w\<lparr>sql_log := sql_log w @ [insert_statement fd w]\<rparr>) \<and>
         revalidated (snd (createInvoice prev fd w)) = revalidated w \<and>
         invoices (snd (createInvoice prev fd w)) = invoices w \<and>
         fst (createInvoice prev fd w) \<noteq> Throw (NEXT_REDIRECT ''/dashboard/invoices'')"
  using createInvoice_valid [OF assms(1-3), of prev w] assms(4) by simp

theorem createInvoice_storage_failure_witness:
  "customerId_ok (FormData_get (example_form ''19.99'') ''customerId'') \<and>
   amount_ok (FormData_get (example_form ''19.99'') ''amount'') \<and>
   status_ok (FormData_get (example_form ''19.99'') ''status'') \<and>
   sql_fault (example_world\<lparr>sql_fault := \<lambda>stmt. Some (Error ''connection refused'')\<rparr>)
     (insert_statement (example_form ''19.99'')
        (example_world\<lparr>sql_fault := \<lambda>stmt. Some (Error ''connection refused'')\<rparr>)) =
     Some (Error ''connection refused'') \<and>
   fst (createInvoice \<lparr>errors = None, message = None\<rparr> (example_form ''19.99'')
          (example_world\<lparr>sql_fault := \<lambda>stmt. Some (Error ''connection refused'')\<rparr>)) =
     Return \<lparr>errors = None, message = Some ''Database Error: Failed to Create Invoice.''\<rparr> \<and>
   revalidated (snd (createInvoice \<lparr>errors = None, message = None\<rparr> (example_form ''19.99'')
          (example_world\<lparr>sql_fault := \<lambda>stmt. Some (Error ''connection refused'')\<rparr>))) = []"
proof -
  let ?w = "example_world\<lparr>sql_fault := \<lambda>stmt. Some (Error ''connection refused'')\<rparr>"
  have h1: "customerId_ok (FormData_get (example_form ''19.99'') ''customerId'')"
    by (simp add: example_form_get customerId_ok_def)
  have h2: "amount_ok (FormData_get (example_form ''19.99'') ''amount'')"
    by (simp add: example_form_get amount_ok_def ToNumber_19_99 del: ToNumber.simps)
  have h3: "status_ok (FormData_get (example_form ''19.99'') ''status'')"
    by (simp add: example_form_get status_ok_def)
  have h4: "sql_fault ?w (insert_statement (example_form ''19.99'') ?w) =
              Some (Error ''connection refused'')"
    by simp
  show ?thesis
    using h1 h2 h3 h4
      createInvoice_storage_failure [OF h1 h2 h3 h4, of "\<lparr>errors = None, message = None\<rparr>"]
    by (simp add: example_world_def)
qed

text \<open>
  C6. The claim as stated: every amount string that fails numeric coercion is treated as
  0 and gets the greater-than-zero error. It fails on \<^verbatim>\<open>abc\<close>:
  \<^verbatim>\<open>Number('abc')\<close> is NaN, and the validator reports the type error
  \<^verbatim>\<open>Expected number, received nan\<close>.
\<close>

theorem amount_abc_counterexample:
  "ToNumber (Str ''abc'') = NaN \<and>
   validation_errors CreateInvoice (form_object (example_form ''abc'')) =
     [(''amount'', [''Expected number, received nan''])] \<and>
   map_of (validation_errors CreateInvoice (form_object (example_form ''abc''))) ''amount'' \<noteq>
     Some [''Please enter an amount greater than $0.'']"
  using ToNumber_abc
  by (simp add: validation_errors_CreateInvoice example_form_get customerId_errors_def
        amount_errors_def status_errors_def customerId_ok_def status_ok_def amount_ok_def
        del: ToNumber.simps)

text \<open>
  C6, amended. An amount string that coerces to a number not greater than 0 gets the
  error \<^verbatim>\<open>Please enter an amount greater than $0.\<close>; the empty string is one of
  them, since it coerces to 0. An amount string whose coercion is NaN gets the type
  error \<^verbatim>\<open>Expected number, received nan\<close> instead.
\<close>

theorem amount_coercion:
  assumes "FormData_get fd ''amount'' = Str s"
  shows "(ToNumber (Str s) = NaN \<longrightarrow>
            map_of (validation_errors CreateInvoice (form_object fd)) ''amount'' =
              Some [''Expected number, received nan'']) \<and>
         (ToNumber (Str s) \<noteq> NaN \<and> js_le (ToNumber (Str s)) (Fin 0) \<longrightarrow>
            map_of (validation_errors CreateInvoice (form_object fd)) ''amount'' =
              Some [''Please enter an amount greater than $0.'']) \<and>
         (s = [] \<longrightarrow> ToNumber (Str s) = Fin 0 \<and>
            map_of (validation_errors CreateInvoice (form_object fd)) ''amount'' =
              Some [''Please enter an amount greater than $0.''])"
  using ToNumber_empty
  by (simp add: amount_entry assms amount_ok_def del: ToNumber.simps)

theorem amount_coercion_witness:
  "FormData_get (example_form []) ''amount'' = Str [] \<and>
   ToNumber (Str []) = Fin 0 \<and>
   map_of (validation_errors CreateInvoice (form_object (example_form []))) ''amount'' =
     Some [''Please enter an amount greater than $0.''] \<and>
   FormData_get (example_form ''abc'') ''amount'' = Str ''abc'' \<and>
   ToNumber (Str ''abc'') = NaN \<and>
   map_of (validation_errors CreateInvoice (form_object (example_form ''abc''))) ''amount'' =
     Some [''Expected number, received nan'']"
  using amount_coercion [OF example_form_get(2) [of "[]"]]
        amount_coercion [OF example_form_get(2) [of "''abc''"]]
        ToNumber_abc ToNumber_empty
  by (simp add: example_form_get del: ToNumber.simps)

text \<open>
  C7. \<^verbatim>\<open>authenticate\<close> answers a failed credential check with
  \<^verbatim>\<open>Invalid credentials.\<close>, any other authentication error with
  \<^verbatim>\<open>Something went wrong.\<close>, and throws every other error on, unchanged; when the
  sign-in returns it returns nothing. It changes nothing in the environment.
\<close>

theorem authenticate_outcomes:
  "(signIn_result w ''credentials'' formData = Some (AuthError ''CredentialsSignin'') \<longrightarrow>
      authenticate prevState formData w = (Return (Some ''Invalid credentials.''), w)) \<and>
   (\<forall>t. signIn_result w ''credentials'' formData = Some (AuthError t) \<and> t \<noteq> ''CredentialsSignin'' \<longrightarrow>
      authenticate prevState formData w = (Return (Some ''Something went wrong.''), w)) \<and>
   (\<forall>e. signIn_result w ''credentials'' formData = Some e \<and> (\<forall>t. e \<noteq> AuthError t) \<longrightarrow>
      authenticate prevState formData w = (Throw e, w)) \<and>
   (signIn_result w ''credentials'' formData = None \<longrightarrow>
      authenticate prevState formData w = (Return None, w))"
  by (auto simp: authenticate_def try_catch_def bind_def signIn_def return_def throw_def
           split: js_error.splits)

theorem authenticate_outcomes_witness:
  "authenticate None [] (example_world\<lparr>signIn_result :=
       \<lambda>provider formData. Some (AuthError ''CredentialsSignin'')\<rparr>) =
     (Return (Some ''Invalid credentials.''),
      example_world\<lparr>signIn_result :=
       \<lambda>provider formData. Some (AuthError ''CredentialsSignin'')\<rparr>) \<and>
   authenticate None [] (example_world\<lparr>signIn_result :=
       \<lambda>provider formData. Some (AuthError ''CallbackRouteError'')\<rparr>) =
     (Return (Some ''Something went wrong.''),
      example_world\<lparr>signIn_result :=
       \<lambda>provider formData. Some (AuthError ''CallbackRouteError'')\<rparr>) \<and>
   authenticate None [] (example_world\<lparr>signIn_result :=
       \<lambda>provider formData. Some (Error ''fetch failed'')\<rparr>) =
     (Throw (Error ''fetch failed''),
      example_world\<lparr>signIn_result := \<lambda>provider formData. Some (Error ''fetch failed'')\<rparr>) \<and>
   authenticate None [] example_world = (Return None, example_world)"
  using authenticate_outcomes [of "example_world\<lparr>signIn_result :=
            \<lambda>provider formData. Some (AuthError ''CredentialsSignin'')\<rparr>" "[]" None]
        authenticate_outcomes [of "example_world\<lparr>signIn_result :=
            \<lambda>provider formData. Some (AuthError ''CallbackRouteError'')\<rparr>" "[]" None]
        authenticate_outcomes [of "example_world\<lparr>signIn_result :=
            \<lambda>provider formData. Some (Error ''fetch failed'')\<rparr>" "[]" None]
        authenticate_outcomes [of example_world "[]" None]
  by (simp add: example_world_def)

text \<open>
  C8. The claim as stated: the validator requires \<^verbatim>\<open>date\<close> to be present as a
  string. It fails on a form without a date: \<^verbatim>\<open>CreateInvoice\<close> and
  \<^verbatim>\<open>UpdateInvoice\<close> are \<^verbatim>\<open>FormSchema\<close> with \<^verbatim>\<open>id\<close> and
  \<^verbatim>\<open>date\<close> omitted, and they accept it.
\<close>

theorem date_absent_counterexample:
  "js_get (form_object (example_form ''5'')) ''date'' = Undefined \<and>
   safeParse CreateInvoice (form_object (example_form ''5'')) =
     ParseSuccess [(''customerId'', Str ''c1''), (''amount'', Num (Fin 5)),
                   (''status'', Str ''paid'')] \<and>
   safeParse UpdateInvoice (form_object (example_form ''5'')) =
     ParseSuccess [(''customerId'', Str ''c1''), (''amount'', Num (Fin 5)),
                   (''status'', Str ''paid'')]"
  using safeParse_CreateInvoice_ok [OF example_form_ok]
  by (simp add: form_object_def js_get_def UpdateInvoice_shape example_form_get ToNumber_5
        del: ToNumber.simps)

text \<open>
  C8, amended. The validators that the actions apply have no \<^verbatim>\<open>date\<close> member:
  their result depends on \<^verbatim>\<open>customerId\<close>, \<^verbatim>\<open>amount\<close> and
  \<^verbatim>\<open>status\<close> only, whether a date is present or not and whatever it is. Only
  \<^verbatim>\<open>FormSchema\<close> itself declares \<^verbatim>\<open>date\<close>, as a string that it accepts
  without looking at its format.
\<close>

theorem date_not_validated:
  assumes "js_get obj' ''customerId'' = js_get obj ''customerId''"
      and "js_get obj' ''amount'' = js_get obj ''amount''"
      and "js_get obj' ''status'' = js_get obj ''status''"
  shows "safeParse CreateInvoice obj' = safeParse CreateInvoice obj \<and>
         safeParse UpdateInvoice obj' = safeParse UpdateInvoice obj \<and>
         map_of CreateInvoice ''date'' = None \<and>
         map_of UpdateInvoice ''date'' = None \<and>
         map_of FormSchema ''date'' = Some (ZodString None) \<and>
         ZodType_parse (ZodString None) p (Str s) = ([], Str s)"
  using safeParse_cong [OF assms]
  by (simp add: UpdateInvoice_shape) (simp add: CreateInvoice_shape FormSchema_def)

theorem date_not_validated_witness:
  "js_get (form_object (example_form ''5'') @ [(''date'', Str ''not a date'')]) ''date'' =
     Str ''not a date'' \<and>
   js_get (form_object (example_form ''5'')) ''date'' = Undefined \<and>
   safeParse CreateInvoice (form_object (example_form ''5'') @ [(''date'', Str ''not a date'')]) =
     safeParse CreateInvoice (form_object (example_form ''5'')) \<and>
   safeParse UpdateInvoice (form_object (example_form ''5'') @ [(''date'', Str ''not a date'')]) =
     safeParse UpdateInvoice (form_object (example_form ''5''))"
proof -
  let ?obj = "form_object (example_form ''5'')"
  let ?obj' = "form_object (example_form ''5'') @ [(''date'', Str ''not a date'')]"
  have h: "js_get ?obj' ''customerId'' = js_get ?obj ''customerId''"
    "js_get ?obj' ''amount'' = js_get ?obj ''amount''"
    "js_get ?obj' ''status'' = js_get ?obj ''status''"
    by (simp_all add: js_get_def form_object_def)
  show ?thesis
    using date_not_validated [OF h]
    by (simp add: js_get_def form_object_def)
qed

text \<open>
  C9. Whatever the form and the id, \<^verbatim>\<open>updateInvoice\<close> leaves the table with the
  same rows in the same order, each with its id and its date; a row whose id differs from
  the given one is untouched, and a row differs from what it was at most in
  \<^verbatim>\<open>customer_id\<close>, \<^verbatim>\<open>amount\<close> and \<^verbatim>\<open>status\<close>.
\<close>

theorem updateInvoice_frame:
  "list_all2
     (\<lambda>r r'. invoice_id r' = invoice_id r \<and> date r' = date r \<and>
              (invoice_id r \<noteq> i \<longrightarrow> r' = r) \<and>
              (\<exists>c a s. r' = r\<lparr>customer_id := c, amount := a, status := s\<rparr>))
     (invoices w) (invoices (snd (updateInvoice i prev fd w)))"
proof -
  let ?P = "\<lambda>(r :: invoice) r'. invoice_id r' = invoice_id r \<and> date r' = date r \<and>
              (invoice_id r \<noteq> i \<longrightarrow> r' = r) \<and>
              (\<exists>c a s. r' = r\<lparr>customer_id := c, amount := a, status := s\<rparr>)"
  have same: "?P r r" for r :: invoice
  proof -
    have "r = r\<lparr>customer_id := customer_id r, amount := amount r, status := status r\<rparr>"
      by simp
    then show ?thesis by blast
  qed
  have unchanged: "list_all2 ?P rows rows" for rows
    using same by (simp add: list_all2_same)
  have updated: "list_all2 ?P rows (execute w (update_statement i fd) rows)" for rows
    unfolding update_statement_def execute.simps list_all2_map2
  proof (rule list_all2_refl)
    fix r :: invoice
    show "?P r (if invoice_id r = i
                then r\<lparr>customer_id := FormData_get fd ''customerId'',
                       amount := js_times (Num (ToNumber (FormData_get fd ''amount''))) (Num (Fin 100)),
                       status := FormData_get fd ''status''\<rparr>
                else r)"
      using same [of r] by auto
  qed
  show ?thesis
  proof (cases "customerId_ok (FormData_get fd ''customerId'') \<and>
                amount_ok (FormData_get fd ''amount'') \<and>
                status_ok (FormData_get fd ''status'')")
    case False
    then show ?thesis
      using unchanged by (simp add: updateInvoice_invalid)
  next
    case True
    then show ?thesis
      using unchanged updated
      by (cases "sql_fault w (update_statement i fd)") (simp_all add: updateInvoice_valid)
  qed
qed

theorem updateInvoice_frame_witness:
  "invoice_id (invoices example_world ! 1) \<noteq> ''i1'' \<and>
   list_all2
     (\<lambda>r r'. invoice_id r' = invoice_id r \<and> date r' = date r \<and>
              (invoice_id r \<noteq> ''i1'' \<longrightarrow> r' = r) \<and>
              (\<exists>c a s. r' = r\<lparr>customer_id := c, amount := a, status := s\<rparr>))
     (invoices example_world)
     (invoices (snd (updateInvoice ''i1'' \<lparr>errors = None, message = None\<rparr>
                       (example_form ''5'') example_world))) \<and>
   invoices (snd (updateInvoice ''i1'' \<lparr>errors = None, message = None\<rparr>
                    (example_form ''5'') example_world)) =
     [\<lparr>invoice_id = ''i1'', customer_id = Str ''c1'', amount = Num (Fin 500),
       status = Str ''paid'', date = Str ''2024-01-01''\<rparr>,
      \<lparr>invoice_id = ''i2'', customer_id = Str ''c2'', amount = Num (Fin 1250),
       status = Str ''paid'', date = Str ''2024-02-03''\<rparr>]"
  using updateInvoice_frame [of "''i1''" example_world "\<lparr>errors = None, message = None\<rparr>"
          "example_form ''5''"]
  by (simp add: updateInvoice_valid [OF example_form_ok] example_world_simps
        update_statement_def example_form_get times_5 del: ToNumber.simps(3))

text \<open>
  C10. With the clock at a calendar date of a year from 0 to 9999, a row that
  \<^verbatim>\<open>createInvoice\<close> adds carries that date, written \<^verbatim>\<open>YYYY-MM-DD\<close>; and
  the action does the same on two forms that have the same entries apart from those named
  \<^verbatim>\<open>date\<close>: a date in the form is never read.
\<close>

theorem createInvoice_date:
  assumes "0 \<le> year (clock w)" "year (clock w) \<le> 9999"
      and "1 \<le> month (clock w)" "month (clock w) \<le> 12"
      and "1 \<le> day (clock w)" "day (clock w) \<le> 31"
      and "filter (\<lambda>e. fst e \<noteq> ''date'') fd' = filter (\<lambda>e. fst e \<noteq> ''date'') fd"
  shows "(invoices (snd (createInvoice prev fd w)) = invoices w \<or>
          (\<exists>c a s. invoices (snd (createInvoice prev fd w)) =
             invoices w @ [\<lparr>invoice_id = generate_id w (invoices w), customer_id = c,
                             amount = a, status = s,
                             date = Str (YYYY_MM_DD (clock w))\<rparr>])) \<and>
         is_YYYY_MM_DD (YYYY_MM_DD (clock w)) \<and>
         createInvoice prev fd' w = createInvoice prev fd w"
proof -
  have stored: "invoices (snd (createInvoice prev fd w)) = invoices w \<or>
          (\<exists>c a s. invoices (snd (createInvoice prev fd w)) =
             invoices w @ [\<lparr>invoice_id = generate_id w (invoices w), customer_id = c,
                             amount = a, status = s,
                             date = Str (YYYY_MM_DD (clock w))\<rparr>])"
  proof (cases "customerId_ok (FormData_get fd ''customerId'') \<and>
                amount_ok (FormData_get fd ''amount'') \<and>
                status_ok (FormData_get fd ''status'')")
    case False
    then show ?thesis by (simp add: createInvoice_invalid)
  next
    case True
    then show ?thesis
      by (cases "sql_fault w (insert_statement fd w)")
         (simp_all add: createInvoice_valid insert_statement_def
            toISOString_date [OF assms(1,2)])
  qed
  have form: "is_YYYY_MM_DD (YYYY_MM_DD (clock w))"
    by (rule YYYY_MM_DD_form [OF assms(1,2,4,6)])
  have "FormData_get fd' k = FormData_get fd k" if "k \<noteq> ''date''" for k
  proof (rule FormData_get_cong)
    have "map_of fd' k = map_of (filter (\<lambda>e. fst e \<noteq> ''date'') fd') k"
      using that by (simp add: map_of_filter_other)
    also have "\<dots> = map_of fd k"
      unfolding assms(7) using that by (simp add: map_of_filter_other)
    finally show "map_of fd' k = map_of fd k" .
  qed
  then have "createInvoice prev fd' w = createInvoice prev fd w"
    by (intro createInvoice_cong) simp_all
  with stored form show ?thesis by blast
qed

theorem createInvoice_date_witness:
  "(0 \<le> year (clock example_world) \<and> year (clock example_world) \<le> 9999 \<and>
    1 \<le> month (clock example_world) \<and> month (clock example_world) \<le> 12 \<and>
    1 \<le> day (clock example_world) \<and> day (clock example_world) \<le> 31) \<and>
   filter (\<lambda>e. fst e \<noteq> ''date'') ((''date'', Text ''1999-12-31'') # example_form ''5'') =
     filter (\<lambda>e. fst e \<noteq> ''date'') (example_form ''5'') \<and>
   YYYY_MM_DD (clock example_world) = ''2024-03-05'' \<and>
   is_YYYY_MM_DD ''2024-03-05'' \<and>
   invoices (snd (createInvoice \<lparr>errors = None, message = None\<rparr>
                    ((''date'', Text ''1999-12-31'') # example_form ''5'') example_world)) =
     invoices example_world @
       [\<lparr>invoice_id = ''i3'', customer_id = Str ''c1'', amount = Num (Fin 500),
         status = Str ''paid'', date = Str ''2024-03-05''\<rparr>]"
proof -
  have c: "0 \<le> year (clock example_world)" "year (clock example_world) \<le> 9999"
    "1 \<le> month (clock example_world)" "month (clock example_world) \<le> 12"
    "1 \<le> day (clock example_world)" "day (clock example_world) \<le> 31"
    by (simp_all add: example_world_def)
  have d: "filter (\<lambda>e. fst e \<noteq> ''date'')
             ((''date'', Text ''1999-12-31'') # example_form ''5'') =
           filter (\<lambda>e. fst e \<noteq> ''date'') (example_form ''5'')"
    by simp
  have ymd: "YYYY_MM_DD (clock example_world) = ''2024-03-05''"
    using toISOString_date [OF c(1,2)] by (simp add: example_date)
  have new: "invoices (snd (createInvoice \<lparr>errors = None, message = None\<rparr>
                    (example_form ''5'') example_world)) =
     invoices example_world @
       [\<lparr>invoice_id = ''i3'', customer_id = Str ''c1'', amount = Num (Fin 500),
         status = Str ''paid'', date = Str ''2024-03-05''\<rparr>]"
    by (simp add: createInvoice_valid [OF example_form_ok] example_world_simps(1)
          insert_statement_def example_form_get times_5
          example_date example_id del: ToNumber.simps(3))
  show ?thesis
    using c d new createInvoice_date [OF c d, of "\<lparr>errors = None, message = None\<rparr>"]
    by (simp add: ymd)
qed

end
